theory Spec2Isabelle
  imports Main "HOL-Library.Word"
begin

section \<open>The translation unit that includes \<^verbatim>\<open>cwisstable/base.h\<close>\<close>

text \<open>
  \<^verbatim>\<open>base.h\<close> is a header of preprocessor directives and macro definitions. What it
  defines depends only on the macros that exist when it is included: the ones the
  compiler predefines (\<^verbatim>\<open>__clang__\<close>, \<^verbatim>\<open>__GNUC__\<close>, \<^verbatim>\<open>_MSC_VER\<close>, \<^verbatim>\<open>__SSE2__\<close>, ...), the ones
  the build passes with \<^verbatim>\<open>-D\<close> (\<^verbatim>\<open>NDEBUG\<close>, \<^verbatim>\<open>CWISS_HAVE_SSE2\<close>, ...), and the
  compiler's \<^verbatim>\<open>__has_builtin\<close> query.

  \<^item> \<open>predefined\<close>: the object-like macros defined before the inclusion, each with
    the integer it has in an \<^verbatim>\<open>#if\<close> (\<^verbatim>\<open>-DX\<close> gives \<^verbatim>\<open>X\<close> the value 1). The first
    entry for a name is the one in force.
  \<^item> \<open>builtins\<close>: \<open>None\<close> when the compiler does not define \<^verbatim>\<open>__has_builtin\<close>;
    \<open>Some bs\<close> when it does, \<^verbatim>\<open>__has_builtin(x)\<close> being 1 exactly for the names in \<open>bs\<close>.
\<close>

record toolchain =
  predefined :: "(string \<times> int) list"
  builtins :: "string list option"

definition lookup :: "toolchain \<Rightarrow> string \<Rightarrow> int option" where
  "lookup t n = map_of (predefined t) n"

text \<open>\<^verbatim>\<open>#ifdef X\<close>; \<^verbatim>\<open>#ifndef X\<close> is its negation.\<close>

definition ifdef :: "toolchain \<Rightarrow> string \<Rightarrow> bool" where
  "ifdef t n = (case lookup t n of None \<Rightarrow> False | Some v \<Rightarrow> True)"

text \<open>The operator \<^verbatim>\<open>defined(X)\<close> inside an \<^verbatim>\<open>#if\<close>: 1 or 0.\<close>

definition defined :: "toolchain \<Rightarrow> string \<Rightarrow> int" where
  "defined t n = (if ifdef t n then 1 else 0)"

text \<open>An identifier inside an \<^verbatim>\<open>#if\<close>: the macro's value, and 0 when it is not a macro.\<close>

definition pp_value :: "toolchain \<Rightarrow> string \<Rightarrow> int" where
  "pp_value t n = (case lookup t n of None \<Rightarrow> 0 | Some v \<Rightarrow> v)"

subsection \<open>C's logical operators on integers\<close>

text \<open>
  \<^verbatim>\<open>!a\<close>, \<^verbatim>\<open>a && b\<close>, \<^verbatim>\<open>a || b\<close> and \<^verbatim>\<open>a >= b\<close> yield the integer 1 or 0, and an operand
  counts as true when it is not 0. \<^verbatim>\<open>true\<close> and \<^verbatim>\<open>false\<close> are the constants of
  \<^verbatim>\<open>stdbool.h\<close>.
\<close>

definition c_true :: int where
  "c_true = 1"

definition c_false :: int where
  "c_false = 0"

definition c_not :: "int \<Rightarrow> int" where
  "c_not a = (if a = 0 then 1 else 0)"

definition c_and :: "int \<Rightarrow> int \<Rightarrow> int" where
  "c_and a b = (if a = 0 then 0 else if b = 0 then 0 else 1)"

definition c_or :: "int \<Rightarrow> int \<Rightarrow> int" where
  "c_or a b = (if a = 0 then (if b = 0 then 0 else 1) else 1)"

definition c_ge :: "int \<Rightarrow> int \<Rightarrow> int" where
  "c_ge a b = (if b \<le> a then 1 else 0)"

section \<open>Compiler detection (base.h, lines 60 to 76)\<close>

text \<open>
  \<^verbatim>\<open>
  #ifdef __clang__
    #define CWISS_IS_CLANG 1
  #else
    #define CWISS_IS_CLANG 0
  #endif
  #if defined(__GNUC__)
    #define CWISS_IS_GCCISH 1
  #else
    #define CWISS_IS_GCCISH 0
  #endif
  #if defined(_MSC_VER)
    #define CWISS_IS_MSVCISH 1
  #else
    #define CWISS_IS_MSVCISH 0
  #endif
  #define CWISS_IS_GCC (CWISS_IS_GCCISH && !CWISS_IS_CLANG)
  #define CWISS_IS_MSVC (CWISS_IS_MSVCISH && !CWISS_IS_CLANG)
  \<close>
  Each macro is the function of the toolchain that gives its value.
\<close>

definition CWISS_IS_CLANG :: "toolchain \<Rightarrow> int" where
  "CWISS_IS_CLANG t = (if ifdef t ''__clang__'' then 1 else 0)"

definition CWISS_IS_GCCISH :: "toolchain \<Rightarrow> int" where
  "CWISS_IS_GCCISH t = (if defined t ''__GNUC__'' \<noteq> 0 then 1 else 0)"

definition CWISS_IS_MSVCISH :: "toolchain \<Rightarrow> int" where
  "CWISS_IS_MSVCISH t = (if defined t ''_MSC_VER'' \<noteq> 0 then 1 else 0)"

definition CWISS_IS_GCC :: "toolchain \<Rightarrow> int" where
  "CWISS_IS_GCC t = c_and (CWISS_IS_GCCISH t) (c_not (CWISS_IS_CLANG t))"

definition CWISS_IS_MSVC :: "toolchain \<Rightarrow> int" where
  "CWISS_IS_MSVC t = c_and (CWISS_IS_MSVCISH t) (c_not (CWISS_IS_CLANG t))"

section \<open>Instruction-set detection (base.h, lines 95 to 126)\<close>

text \<open>
  \<^verbatim>\<open>
  #ifndef CWISS_HAVE_SSE2
    #if defined(__SSE2__) || \
        (CWISS_IS_MSVCISH && \
         (defined(_M_X64) || (defined(_M_IX86) && _M_IX86_FP >= 2)))
      #define CWISS_HAVE_SSE2 1
    #else
      #define CWISS_HAVE_SSE2 0
    #endif
  #endif
  \<close>
  When the build has defined the macro already, the header leaves it alone and the
  macro keeps the build's value.
\<close>

definition CWISS_HAVE_SSE2 :: "toolchain \<Rightarrow> int" where
  "CWISS_HAVE_SSE2 t =
     (case lookup t ''CWISS_HAVE_SSE2'' of
        Some v \<Rightarrow> v
      | None \<Rightarrow>
          if c_or (defined t ''__SSE2__'')
               (c_and (CWISS_IS_MSVCISH t)
                  (c_or (defined t ''_M_X64'')
                     (c_and (defined t ''_M_IX86'') (c_ge (pp_value t ''_M_IX86_FP'') 2)))) \<noteq> 0
          then 1 else 0)"

text \<open>
  \<^verbatim>\<open>
  #ifndef CWISS_HAVE_SSSE3
    #ifdef __SSSE3__
      #define CWISS_HAVE_SSSE3 1
    #else
      #define CWISS_HAVE_SSSE3 0
    #endif
  #endif
  \<close>
\<close>

definition CWISS_HAVE_SSSE3 :: "toolchain \<Rightarrow> int" where
  "CWISS_HAVE_SSSE3 t =
     (case lookup t ''CWISS_HAVE_SSSE3'' of
        Some v \<Rightarrow> v
      | None \<Rightarrow> if ifdef t ''__SSSE3__'' then 1 else 0)"

subsection \<open>Preprocessing the header\<close>

text \<open>
  The preprocessor either stops at an \<^verbatim>\<open>#error\<close> directive, with its message, or
  reaches the end of the header; then the result is the list of the headers that
  \<^verbatim>\<open>base.h\<close> included, in order.
  \<^verbatim>\<open>
  #ifndef CWISSTABLE_BASE_H_
  #define CWISSTABLE_BASE_H_
  #include <stdbool.h>
  #include <stdio.h>
  #include <stdlib.h>
  #ifdef __cplusplus
    #include <atomic>
  #else
    #include <stdatomic.h>
  #endif
  ...
  #if CWISS_HAVE_SSE2
    #include <emmintrin.h>
  #endif
  #if CWISS_HAVE_SSSE3
    #if !CWISS_HAVE_SSE2
      #error "Bad configuration: SSSE3 implies SSE2!"
    #endif
    #include <tmmintrin.h>
  #endif
  ...
  #endif  // CWISSTABLE_BASE_H_
  \<close>
\<close>

datatype pp_error = Error_directive string

definition base_h_body :: "toolchain \<Rightarrow> pp_error + string list" where
  "base_h_body t =
     (let inc0 = [''stdbool.h'', ''stdio.h'', ''stdlib.h''];
          inc1 = inc0 @ (if ifdef t ''__cplusplus'' then [''atomic''] else [''stdatomic.h'']);
          inc2 = inc1 @ (if CWISS_HAVE_SSE2 t \<noteq> 0 then [''emmintrin.h''] else [])
      in if CWISS_HAVE_SSSE3 t \<noteq> 0 then
           (if c_not (CWISS_HAVE_SSE2 t) \<noteq> 0
            then Inl (Error_directive ''Bad configuration: SSSE3 implies SSE2!'')
            else Inr (inc2 @ [''tmmintrin.h'']))
         else Inr inc2)"

text \<open>The include guard: a header whose guard macro exists already is empty.\<close>

definition base_h :: "toolchain \<Rightarrow> pp_error + string list" where
  "base_h t = (if ifdef t ''CWISSTABLE_BASE_H_'' then Inr [] else base_h_body t)"

section \<open>The process at run time\<close>

text \<open>
  The macros below expand to C code that runs. The state of the running process is
  its memory (the program's variables, of any type \<open>'s\<close>) and the standard error
  stream: the bytes written to the stream and still in its buffer, and the bytes that
  have left the buffer for the file descriptor.
\<close>

record 's process =
  mem :: 's
  stderr_buf :: string
  stderr_out :: string

text \<open>
  A macro invocation that is a statement either completes, and the program goes on
  from the state it leaves, or ends the process in \<^verbatim>\<open>abort()\<close>: abnormal termination,
  after which nothing of the program runs.
\<close>

datatype 's outcome = Returns "'s process" | Aborted "'s process"

text \<open>
  A macro argument is an expression, evaluated where the expansion puts it: it yields a
  value and may change the memory. A condition yields a C scalar, here an integer
  (true when it is not 0). The variadic arguments of a check are the arguments of a
  \<^verbatim>\<open>fprintf\<close> (a format and its operands): evaluating them yields the text that
  \<^verbatim>\<open>fprintf\<close> renders.
\<close>

type_synonym 's cond_expr = "'s \<Rightarrow> int \<times> 's"

type_synonym 's va_args_expr = "'s \<Rightarrow> string \<times> 's"

subsection \<open>The C library calls of the expansion\<close>

text \<open>\<^verbatim>\<open>fprintf(stderr, ...)\<close>, once the format is rendered: the text goes to the stream.\<close>

definition fprintf_stderr :: "string \<Rightarrow> 's process \<Rightarrow> 's process" where
  "fprintf_stderr text p = p\<lparr>stderr_buf := stderr_buf p @ text\<rparr>"

text \<open>\<^verbatim>\<open>fflush(stderr)\<close>: what the buffer holds leaves it.\<close>

definition fflush_stderr :: "'s process \<Rightarrow> 's process" where
  "fflush_stderr p = p\<lparr>stderr_out := stderr_out p @ stderr_buf p, stderr_buf := []\<rparr>"

text \<open>The conversion \<^verbatim>\<open>%d\<close> of a value that is not negative, as \<^verbatim>\<open>__LINE__\<close> is.\<close>

definition digit :: "nat \<Rightarrow> char" where
  "digit d = ''0123456789'' ! d"

fun dec :: "nat \<Rightarrow> string" where
  "dec n = (if n < 10 then [digit n] else dec (n div 10) @ [digit (n mod 10)])"

declare dec.simps [simp del]

definition newline :: string where
  "newline = [CHR 0x0A]"

section \<open>Diagnostic primitives (base.h, lines 159 to 174)\<close>

text \<open>
  \<^verbatim>\<open>
  #define CWISS_CHECK(cond_, ...)                                           \
    do {                                                                    \
      if (cond_) break;                                                     \
      fprintf(stderr, "CWISS_CHECK failed at %s:%d\n", __FILE__, __LINE__); \
      fprintf(stderr, __VA_ARGS__);                                         \
      fprintf(stderr, "\n");                                                \
      fflush(stderr);                                                       \
      abort();                                                              \
    } while (false)
  \<close>
  \<open>file\<close> and \<open>line\<close> are \<^verbatim>\<open>__FILE__\<close> and \<^verbatim>\<open>__LINE__\<close> where the macro is invoked.
\<close>

definition CWISS_CHECK ::
  "string \<Rightarrow> nat \<Rightarrow> 's cond_expr \<Rightarrow> 's va_args_expr \<Rightarrow> 's process \<Rightarrow> 's outcome" where
  "CWISS_CHECK file line cond va_args p =
     (let (c, m1) = cond (mem p);
          p1 = p\<lparr>mem := m1\<rparr>
      in if c \<noteq> 0 then Returns p1
         else
           (let p2 = fprintf_stderr (''CWISS_CHECK failed at '' @ file @ '':'' @ dec line @ newline) p1;
                (text, m2) = va_args (mem p2);
                p3 = fprintf_stderr text (p2\<lparr>mem := m2\<rparr>);
                p4 = fprintf_stderr newline p3;
                p5 = fflush_stderr p4
            in Aborted p5))"

text \<open>
  \<^verbatim>\<open>
  #ifdef NDEBUG
    #define CWISS_DCHECK(cond_, ...) ((void)0)
  #else
    #define CWISS_DCHECK CWISS_CHECK
  #endif
  \<close>
\<close>

definition CWISS_DCHECK ::
  "toolchain \<Rightarrow> string \<Rightarrow> nat \<Rightarrow> 's cond_expr \<Rightarrow> 's va_args_expr \<Rightarrow> 's process \<Rightarrow> 's outcome" where
  "CWISS_DCHECK t file line cond va_args p =
     (if ifdef t ''NDEBUG'' then Returns p
      else CWISS_CHECK file line cond va_args p)"

text \<open>
  A program that invokes one statement \<open>n\<close> times in a row, as a loop around it does;
  an abort ends the run.
\<close>

fun invoke_times :: "nat \<Rightarrow> ('s process \<Rightarrow> 's outcome) \<Rightarrow> 's process \<Rightarrow> 's outcome" where
  "invoke_times 0 stmt p = Returns p"
| "invoke_times (Suc n) stmt p =
     (case stmt p of
        Returns p' \<Rightarrow> invoke_times n stmt p'
      | Aborted p' \<Rightarrow> Aborted p')"

section \<open>Branch-prediction hints (base.h, lines 132 to 136 and 178 to 184)\<close>

text \<open>
  \<^verbatim>\<open>
  #ifdef __has_builtin
    #define CWISS_HAVE_CLANG_BUILTIN(x) __has_builtin(x)
  #else
    #define CWISS_HAVE_CLANG_BUILTIN(x) 0
  #endif
  \<close>
\<close>

definition CWISS_HAVE_CLANG_BUILTIN :: "toolchain \<Rightarrow> string \<Rightarrow> int" where
  "CWISS_HAVE_CLANG_BUILTIN t x =
     (case builtins t of
        Some bs \<Rightarrow> if x \<in> set bs then 1 else 0
      | None \<Rightarrow> 0)"

text \<open>
  The compiler intrinsic \<^verbatim>\<open>__builtin_expect(exp, c)\<close>: its value is the value of \<open>exp\<close>;
  \<open>c\<close> is what the compiler is told to expect.
\<close>

definition builtin_expect :: "int \<Rightarrow> int \<Rightarrow> int" where
  "builtin_expect exp c = exp"

text \<open>
  \<^verbatim>\<open>
  #if CWISS_HAVE_CLANG_BUILTIN(__builtin_expect) || CWISS_IS_GCC
    #define CWISS_LIKELY(cond_) (__builtin_expect(false || (cond_), true))
    #define CWISS_UNLIKELY(cond_) (__builtin_expect(false || (cond_), false))
  #else
    #define CWISS_LIKELY(cond_) (cond_)
    #define CWISS_UNLIKELY(cond_) (cond_)
  #endif
  \<close>
  Both expansions evaluate \<^verbatim>\<open>cond_\<close> once: the left operand of \<^verbatim>\<open>||\<close> is \<^verbatim>\<open>false\<close>, so the
  right one is always evaluated.
\<close>

definition CWISS_LIKELY :: "toolchain \<Rightarrow> 's cond_expr \<Rightarrow> 's \<Rightarrow> int \<times> 's" where
  "CWISS_LIKELY t cond s =
     (if c_or (CWISS_HAVE_CLANG_BUILTIN t ''__builtin_expect'') (CWISS_IS_GCC t) \<noteq> 0
      then (let (v, s') = cond s in (builtin_expect (c_or c_false v) c_true, s'))
      else cond s)"

definition CWISS_UNLIKELY :: "toolchain \<Rightarrow> 's cond_expr \<Rightarrow> 's \<Rightarrow> int \<times> 's" where
  "CWISS_UNLIKELY t cond s =
     (if c_or (CWISS_HAVE_CLANG_BUILTIN t ''__builtin_expect'') (CWISS_IS_GCC t) \<noteq> 0
      then (let (v, s') = cond s in (builtin_expect (c_or c_false v) c_false, s'))
      else cond s)"

section \<open>Atomic counter (base.h, lines 35 to 50)\<close>

text \<open>
  \<^verbatim>\<open>
  #ifdef __cplusplus
    #include <atomic>
    #define CWISS_ATOMIC_T(Type_) std::atomic<Type_>
    #define CWISS_ATOMIC_INC(val_) (val_).fetch_add(1, std::memory_order_relaxed)
  #else
    #include <stdatomic.h>
    #define CWISS_ATOMIC_T(Type_) _Atomic(Type_)
    #define CWISS_ATOMIC_INC(val_) \
      atomic_fetch_add_explicit(&(val_), 1, memory_order_relaxed)
  #endif
  \<close>
  \<^verbatim>\<open>CWISS_ATOMIC_T(Type_)\<close> of an integer type of \<open>LENGTH('a)\<close> bits is \<open>'a word\<close>.

  The two library operations are not code of the header; they are as the standards
  define them (C11 7.17.7.5 for \<^verbatim>\<open>atomic_fetch_add_explicit\<close>, C++11 29.6.5 for
  \<^verbatim>\<open>std::atomic<T>::fetch_add\<close>): one indivisible read-modify-write that replaces the
  value of the object by the value plus the operand, with silent wrap-around for signed
  and unsigned types alike, and returns the value the object held before. The function
  takes the value of the object and the operand, and gives the value returned and the
  value of the object afterwards. The memory order constrains how other accesses are
  ordered around the operation, not the operation itself, and has no part in the model.
\<close>

definition atomic_fetch_add_explicit :: "'a::len word \<Rightarrow> 'a word \<Rightarrow> 'a word \<times> 'a word" where
  "atomic_fetch_add_explicit obj operand = (obj, obj + operand)"

definition std_atomic_fetch_add :: "'a::len word \<Rightarrow> 'a word \<Rightarrow> 'a word \<times> 'a word" where
  "std_atomic_fetch_add obj operand = (obj, obj + operand)"

definition CWISS_ATOMIC_INC :: "toolchain \<Rightarrow> 'a::len word \<Rightarrow> 'a word \<times> 'a word" where
  "CWISS_ATOMIC_INC t val =
     (if ifdef t ''__cplusplus'' then std_atomic_fetch_add val 1
      else atomic_fetch_add_explicit val 1)"

subsection \<open>Threads that increment one counter\<close>

text \<open>
  Several threads share one counter and use nothing else to synchronize. Thread \<open>i\<close>
  still has \<open>pending ! i\<close> invocations of \<^verbatim>\<open>CWISS_ATOMIC_INC\<close> to make. Since each
  invocation is one indivisible operation on the counter, an execution is an order in
  which the threads take their turns: a schedule, the list of the threads that act, one
  after the other. A thread that has nothing left to do, or that does not exist, lets
  its turn pass.
\<close>

record 'c shared =
  counter :: 'c
  pending :: "nat list"

definition thread_step :: "toolchain \<Rightarrow> nat \<Rightarrow> 'a::len word shared \<Rightarrow> 'a word shared" where
  "thread_step t i st =
     (if i < length (pending st) then
        (if pending st ! i = 0 then st
         else st\<lparr>counter := snd (CWISS_ATOMIC_INC t (counter st)),
                 pending := (pending st)[i := pending st ! i - 1]\<rparr>)
      else st)"

fun run_schedule :: "toolchain \<Rightarrow> nat list \<Rightarrow> 'a::len word shared \<Rightarrow> 'a word shared" where
  "run_schedule t [] st = st"
| "run_schedule t (i # sched) st = run_schedule t sched (thread_step t i st)"

section \<open>Properties of the compiler detection\<close>

lemma family_flags:
  "(CWISS_IS_CLANG t \<noteq> 0) = ifdef t ''__clang__''"
  "(CWISS_IS_GCCISH t \<noteq> 0) = ifdef t ''__GNUC__''"
  "(CWISS_IS_MSVCISH t \<noteq> 0) = ifdef t ''_MSC_VER''"
  by (simp_all add: CWISS_IS_CLANG_def CWISS_IS_GCCISH_def CWISS_IS_MSVCISH_def defined_def)

lemma strict_flags:
  "CWISS_IS_GCC t = (if ifdef t ''__GNUC__'' \<and> \<not> ifdef t ''__clang__'' then 1 else 0)"
  "CWISS_IS_MSVC t = (if ifdef t ''_MSC_VER'' \<and> \<not> ifdef t ''__clang__'' then 1 else 0)"
  by (simp_all add: CWISS_IS_GCC_def CWISS_IS_MSVC_def CWISS_IS_CLANG_def CWISS_IS_GCCISH_def
      CWISS_IS_MSVCISH_def defined_def c_and_def c_not_def)

text \<open>
  Claim C1. For every toolchain, \<^verbatim>\<open>CWISS_IS_GCC\<close> is true exactly when the GCC-family
  flag is true and the Clang flag is false, and \<^verbatim>\<open>CWISS_IS_MSVC\<close> exactly when the
  MSVC-family flag is true and the Clang flag is false; so Clang, in GCC mode or in MSVC
  mode, never makes either of them true. For every recognized compiler, that is Clang
  (\<^verbatim>\<open>__clang__\<close> defined, in either mode), GCC (\<^verbatim>\<open>__GNUC__\<close> defined and \<^verbatim>\<open>_MSC_VER\<close> not)
  and MSVC (\<^verbatim>\<open>_MSC_VER\<close> defined and \<^verbatim>\<open>__GNUC__\<close> not), exactly one of \<^verbatim>\<open>CWISS_IS_CLANG\<close>,
  \<^verbatim>\<open>CWISS_IS_GCC\<close> and \<^verbatim>\<open>CWISS_IS_MSVC\<close> is true.
\<close>

theorem compiler_identity_flags:
  "(CWISS_IS_GCC t \<noteq> 0) = (CWISS_IS_GCCISH t \<noteq> 0 \<and> CWISS_IS_CLANG t = 0) \<and>
   (CWISS_IS_MSVC t \<noteq> 0) = (CWISS_IS_MSVCISH t \<noteq> 0 \<and> CWISS_IS_CLANG t = 0) \<and>
   (CWISS_IS_CLANG t \<noteq> 0 \<longrightarrow> CWISS_IS_GCC t = 0 \<and> CWISS_IS_MSVC t = 0) \<and>
   (ifdef t ''__clang__'' \<or>
    (ifdef t ''__GNUC__'' \<and> \<not> ifdef t ''_MSC_VER'') \<or>
    (ifdef t ''_MSC_VER'' \<and> \<not> ifdef t ''__GNUC__'') \<longrightarrow>
      length (filter (\<lambda>v. v \<noteq> 0) [CWISS_IS_CLANG t, CWISS_IS_GCC t, CWISS_IS_MSVC t]) = 1)"
  by (auto simp add: strict_flags CWISS_IS_CLANG_def CWISS_IS_GCCISH_def CWISS_IS_MSVCISH_def
      defined_def)

text \<open>
  Clang in GCC mode, Clang in MSVC mode (clang-cl), GCC and MSVC: one flag is true on
  each, and on the first two it is the Clang flag.
\<close>

theorem compiler_identity_flags_witness:
  "CWISS_IS_CLANG \<lparr>predefined = [(''__clang__'', 1), (''__GNUC__'', 4)], builtins = None\<rparr> = 1 \<and>
   CWISS_IS_GCC \<lparr>predefined = [(''__clang__'', 1), (''__GNUC__'', 4)], builtins = None\<rparr> = 0 \<and>
   CWISS_IS_CLANG \<lparr>predefined = [(''__clang__'', 1), (''_MSC_VER'', 1930)], builtins = None\<rparr> = 1 \<and>
   CWISS_IS_MSVC \<lparr>predefined = [(''__clang__'', 1), (''_MSC_VER'', 1930)], builtins = None\<rparr> = 0 \<and>
   length (filter (\<lambda>v. v \<noteq> 0)
     [CWISS_IS_CLANG \<lparr>predefined = [(''__clang__'', 1), (''__GNUC__'', 4)], builtins = None\<rparr>,
      CWISS_IS_GCC \<lparr>predefined = [(''__clang__'', 1), (''__GNUC__'', 4)], builtins = None\<rparr>,
      CWISS_IS_MSVC \<lparr>predefined = [(''__clang__'', 1), (''__GNUC__'', 4)], builtins = None\<rparr>]) = 1 \<and>
   length (filter (\<lambda>v. v \<noteq> 0)
     [CWISS_IS_CLANG \<lparr>predefined = [(''__clang__'', 1), (''_MSC_VER'', 1930)], builtins = None\<rparr>,
      CWISS_IS_GCC \<lparr>predefined = [(''__clang__'', 1), (''_MSC_VER'', 1930)], builtins = None\<rparr>,
      CWISS_IS_MSVC \<lparr>predefined = [(''__clang__'', 1), (''_MSC_VER'', 1930)], builtins = None\<rparr>]) = 1 \<and>
   length (filter (\<lambda>v. v \<noteq> 0)
     [CWISS_IS_CLANG \<lparr>predefined = [(''__GNUC__'', 13)], builtins = None\<rparr>,
      CWISS_IS_GCC \<lparr>predefined = [(''__GNUC__'', 13)], builtins = None\<rparr>,
      CWISS_IS_MSVC \<lparr>predefined = [(''__GNUC__'', 13)], builtins = None\<rparr>]) = 1 \<and>
   length (filter (\<lambda>v. v \<noteq> 0)
     [CWISS_IS_CLANG \<lparr>predefined = [(''_MSC_VER'', 1930)], builtins = None\<rparr>,
      CWISS_IS_GCC \<lparr>predefined = [(''_MSC_VER'', 1930)], builtins = None\<rparr>,
      CWISS_IS_MSVC \<lparr>predefined = [(''_MSC_VER'', 1930)], builtins = None\<rparr>]) = 1"
proof -
  have macros:
    "ifdef \<lparr>predefined = [(''__clang__'', 1), (''__GNUC__'', 4)], builtins = None\<rparr> ''__clang__''"
    "ifdef \<lparr>predefined = [(''__clang__'', 1), (''_MSC_VER'', 1930)], builtins = None\<rparr> ''__clang__''"
    "ifdef \<lparr>predefined = [(''__GNUC__'', 13)], builtins = None\<rparr> ''__GNUC__''"
    "\<not> ifdef \<lparr>predefined = [(''__GNUC__'', 13)], builtins = None\<rparr> ''_MSC_VER''"
    "ifdef \<lparr>predefined = [(''_MSC_VER'', 1930)], builtins = None\<rparr> ''_MSC_VER''"
    "\<not> ifdef \<lparr>predefined = [(''_MSC_VER'', 1930)], builtins = None\<rparr> ''__GNUC__''"
    by (simp_all add: ifdef_def lookup_def)
  have clang:
    "CWISS_IS_CLANG \<lparr>predefined = [(''__clang__'', 1), (''__GNUC__'', 4)], builtins = None\<rparr> = 1"
    "CWISS_IS_CLANG \<lparr>predefined = [(''__clang__'', 1), (''_MSC_VER'', 1930)], builtins = None\<rparr> = 1"
    using macros by (simp_all add: CWISS_IS_CLANG_def)
  show ?thesis
    using macros clang
      compiler_identity_flags
        [of "\<lparr>predefined = [(''__clang__'', 1), (''__GNUC__'', 4)], builtins = None\<rparr>"]
      compiler_identity_flags
        [of "\<lparr>predefined = [(''__clang__'', 1), (''_MSC_VER'', 1930)], builtins = None\<rparr>"]
      compiler_identity_flags [of "\<lparr>predefined = [(''__GNUC__'', 13)], builtins = None\<rparr>"]
      compiler_identity_flags [of "\<lparr>predefined = [(''_MSC_VER'', 1930)], builtins = None\<rparr>"]
    by simp
qed

section \<open>Properties of the instruction-set detection\<close>

text \<open>
  Claim C2. Where the body of the header is preprocessed (its include guard is not yet
  defined), \<^verbatim>\<open>CWISS_HAVE_SSSE3\<close> is true and \<^verbatim>\<open>CWISS_HAVE_SSE2\<close> is false, preprocessing
  stops at the directive \<^verbatim>\<open>#error "Bad configuration: SSSE3 implies SSE2!"\<close>: the
  configuration is not accepted, and no flag is changed to make it acceptable.
\<close>

theorem ssse3_without_sse2_is_error:
  assumes "\<not> ifdef t ''CWISSTABLE_BASE_H_''"
    and "CWISS_HAVE_SSSE3 t \<noteq> 0"
    and "CWISS_HAVE_SSE2 t = 0"
  shows "base_h t = Inl (Error_directive ''Bad configuration: SSSE3 implies SSE2!'')"
  using assms by (simp add: base_h_def base_h_body_def c_not_def)

text \<open>
  A compiler that detects both instruction sets, in a build that overrides
  \<^verbatim>\<open>CWISS_HAVE_SSE2\<close> with 0.
\<close>

theorem ssse3_without_sse2_is_error_witness:
  "base_h \<lparr>predefined = [(''__SSSE3__'', 1), (''__SSE2__'', 1), (''CWISS_HAVE_SSE2'', 0)],
           builtins = None\<rparr>
     = Inl (Error_directive ''Bad configuration: SSSE3 implies SSE2!'')"
  using ssse3_without_sse2_is_error
    [of "\<lparr>predefined = [(''__SSSE3__'', 1), (''__SSE2__'', 1), (''CWISS_HAVE_SSE2'', 0)],
          builtins = None\<rparr>"]
  by (simp add: CWISS_HAVE_SSSE3_def CWISS_HAVE_SSE2_def ifdef_def lookup_def)

text \<open>
  Claim C5. A capability flag that the build defines before the header is included
  reads the value the build gave it, whatever the detection macros say: the detection
  is not consulted. This holds for \<^verbatim>\<open>CWISS_HAVE_SSE2\<close> and for \<^verbatim>\<open>CWISS_HAVE_SSSE3\<close>.
\<close>

theorem capability_override_wins:
  "(lookup t ''CWISS_HAVE_SSE2'' = Some v \<longrightarrow> CWISS_HAVE_SSE2 t = v) \<and>
   (lookup t ''CWISS_HAVE_SSSE3'' = Some w \<longrightarrow> CWISS_HAVE_SSSE3 t = w)"
  by (simp add: CWISS_HAVE_SSE2_def CWISS_HAVE_SSSE3_def)

text \<open>
  A platform that defines \<^verbatim>\<open>__SSE2__\<close> and \<^verbatim>\<open>__SSSE3__\<close>: both flags are detected as 1;
  with both overridden to 0 on the same platform, both read 0.
\<close>

theorem capability_override_wins_witness:
  "CWISS_HAVE_SSE2 \<lparr>predefined = [(''__SSE2__'', 1), (''__SSSE3__'', 1)], builtins = None\<rparr> = 1 \<and>
   CWISS_HAVE_SSSE3 \<lparr>predefined = [(''__SSE2__'', 1), (''__SSSE3__'', 1)], builtins = None\<rparr> = 1 \<and>
   CWISS_HAVE_SSE2 \<lparr>predefined = [(''CWISS_HAVE_SSE2'', 0), (''CWISS_HAVE_SSSE3'', 0),
       (''__SSE2__'', 1), (''__SSSE3__'', 1)], builtins = None\<rparr> = 0 \<and>
   CWISS_HAVE_SSSE3 \<lparr>predefined = [(''CWISS_HAVE_SSE2'', 0), (''CWISS_HAVE_SSSE3'', 0),
       (''__SSE2__'', 1), (''__SSSE3__'', 1)], builtins = None\<rparr> = 0"
proof -
  have detected:
    "CWISS_HAVE_SSE2 \<lparr>predefined = [(''__SSE2__'', 1), (''__SSSE3__'', 1)], builtins = None\<rparr> = 1"
    "CWISS_HAVE_SSSE3 \<lparr>predefined = [(''__SSE2__'', 1), (''__SSSE3__'', 1)], builtins = None\<rparr> = 1"
    by (simp_all add: CWISS_HAVE_SSE2_def CWISS_HAVE_SSSE3_def lookup_def ifdef_def defined_def
        c_or_def)
  have overridden:
    "lookup \<lparr>predefined = [(''CWISS_HAVE_SSE2'', 0), (''CWISS_HAVE_SSSE3'', 0),
       (''__SSE2__'', 1), (''__SSSE3__'', 1)], builtins = None\<rparr> ''CWISS_HAVE_SSE2'' = Some 0"
    "lookup \<lparr>predefined = [(''CWISS_HAVE_SSE2'', 0), (''CWISS_HAVE_SSSE3'', 0),
       (''__SSE2__'', 1), (''__SSSE3__'', 1)], builtins = None\<rparr> ''CWISS_HAVE_SSSE3'' = Some 0"
    by (simp_all add: lookup_def)
  show ?thesis
    using detected overridden
      capability_override_wins
        [of "\<lparr>predefined = [(''CWISS_HAVE_SSE2'', 0), (''CWISS_HAVE_SSSE3'', 0),
          (''__SSE2__'', 1), (''__SSSE3__'', 1)], builtins = None\<rparr>" 0 0]
    by simp
qed

section \<open>Properties of the diagnostic primitives\<close>

lemma dec_161: "dec 161 = ''161''"
  by (simp add: dec.simps digit_def)

text \<open>
  Claim C3. When the condition evaluates to false, \<^verbatim>\<open>CWISS_CHECK\<close> ends in \<^verbatim>\<open>abort()\<close>
  and never returns. By then the standard error stream has received, after what it held
  before, exactly the header \<^verbatim>\<open>CWISS_CHECK failed at <file>:<line>\<close> and a newline, with
  the file and line of the invocation, then the caller's formatted message, then a
  newline; and the stream has been flushed: its buffer is empty and all of it has been
  written out. The memory is what the one evaluation of the condition and of the message
  arguments left.
\<close>

theorem CWISS_CHECK_false_aborts:
  assumes "fst (cond (mem p)) = 0"
  shows "CWISS_CHECK file line cond va_args p =
     Aborted \<lparr>mem = snd (va_args (snd (cond (mem p)))),
              stderr_buf = [],
              stderr_out = stderr_out p @ stderr_buf p @
                ''CWISS_CHECK failed at '' @ file @ '':'' @ dec line @ newline @
                fst (va_args (snd (cond (mem p)))) @ newline\<rparr>"
  using assms
  by (simp add: CWISS_CHECK_def fprintf_stderr_def fflush_stderr_def split_beta Let_def)

text \<open>A failing check with the message \<^verbatim>\<open>boom\<close> at line 161 of \<^verbatim>\<open>raw_table.h\<close>.\<close>

theorem CWISS_CHECK_false_aborts_witness:
  "CWISS_CHECK ''raw_table.h'' 161 (\<lambda>m. (0, m)) (\<lambda>m. (''boom'', m))
       \<lparr>mem = (7::nat), stderr_buf = [], stderr_out = []\<rparr> =
     Aborted \<lparr>mem = 7, stderr_buf = [],
       stderr_out = ''CWISS_CHECK failed at raw_table.h:161'' @ [CHR 0x0A] @ ''boom'' @ [CHR 0x0A]\<rparr>"
  using CWISS_CHECK_false_aborts
    [of "\<lambda>m. (0, m)" "\<lparr>mem = (7::nat), stderr_buf = [], stderr_out = []\<rparr>"
      "''raw_table.h''" 161 "\<lambda>m. (''boom'', m)"]
  by (simp add: dec_161 newline_def)

text \<open>
  Claim C4. When the condition evaluates to true, \<^verbatim>\<open>CWISS_CHECK\<close> returns. The state it
  leaves is the state before it with the memory that the one evaluation of the condition
  produced: nothing is written to the standard error stream, nothing is flushed, and the
  message arguments are not evaluated. The header defines \<^verbatim>\<open>CWISS_CHECK\<close> outside every
  conditional, so the function has no toolchain argument: the statement is the same
  with \<^verbatim>\<open>NDEBUG\<close> defined and without it.
\<close>

theorem CWISS_CHECK_true_returns:
  assumes "fst (cond (mem p)) \<noteq> 0"
  shows "CWISS_CHECK file line cond va_args p = Returns (p\<lparr>mem := snd (cond (mem p))\<rparr>)"
  using assms by (simp add: CWISS_CHECK_def split_beta Let_def)

text \<open>
  A passing check whose message arguments would change the memory: the memory, the
  buffered text and the written text all stay.
\<close>

theorem CWISS_CHECK_true_returns_witness:
  "CWISS_CHECK ''raw_table.h'' 161 (\<lambda>m. (1, m)) (\<lambda>m. (''boom'', Suc m))
       \<lparr>mem = (7::nat), stderr_buf = ''pending'', stderr_out = ''old''\<rparr> =
     Returns \<lparr>mem = 7, stderr_buf = ''pending'', stderr_out = ''old''\<rparr>"
  using CWISS_CHECK_true_returns
    [of "\<lambda>m. (1, m)" "\<lparr>mem = (7::nat), stderr_buf = ''pending'', stderr_out = ''old''\<rparr>"
      "''raw_table.h''" 161 "\<lambda>m. (''boom'', Suc m)"]
  by simp

lemma invoke_times_no_op:
  assumes "\<And>q. stmt q = Returns q"
  shows "invoke_times n stmt p = Returns p"
  using assms by (induction n) simp_all

text \<open>
  Claim C6. With \<^verbatim>\<open>NDEBUG\<close> defined, an invocation of \<^verbatim>\<open>CWISS_DCHECK\<close> returns and
  leaves the whole state as it was, for every condition and every message: neither is
  evaluated (a condition that would change the memory does not change it), nothing is
  written and nothing aborts. The same holds after any number \<open>n\<close> of invocations.
\<close>

theorem CWISS_DCHECK_ndebug_no_op:
  assumes "ifdef t ''NDEBUG''"
  shows "CWISS_DCHECK t file line cond va_args p = Returns p \<and>
     invoke_times n (CWISS_DCHECK t file line cond va_args) p = Returns p"
  using assms by (simp add: CWISS_DCHECK_def invoke_times_no_op)

text \<open>
  A condition that is false and increments a counter, checked 1000 times in a build
  with \<^verbatim>\<open>-DNDEBUG\<close>: the counter is still 0 and nothing was written.
\<close>

theorem CWISS_DCHECK_ndebug_no_op_witness:
  "invoke_times 1000
     (CWISS_DCHECK \<lparr>predefined = [(''NDEBUG'', 1)], builtins = None\<rparr> ''raw_table.h'' 161
        (\<lambda>counter. (0, Suc counter)) (\<lambda>counter. (''boom'', Suc counter)))
     \<lparr>mem = (0::nat), stderr_buf = [], stderr_out = []\<rparr> =
   Returns \<lparr>mem = 0, stderr_buf = [], stderr_out = []\<rparr>"
proof -
  have "ifdef \<lparr>predefined = [(''NDEBUG'', 1)], builtins = None\<rparr> ''NDEBUG''"
    by (simp add: ifdef_def lookup_def)
  then show ?thesis
    by (rule conjunct2 [OF CWISS_DCHECK_ndebug_no_op])
qed

text \<open>
  Claim C7. With \<^verbatim>\<open>NDEBUG\<close> not defined, \<^verbatim>\<open>CWISS_DCHECK\<close> does what \<^verbatim>\<open>CWISS_CHECK\<close> does,
  for every invocation site, condition, message and state: the same outcome (return or
  abort) with the same memory, the same buffered and the same written text.
\<close>

theorem CWISS_DCHECK_debug_is_CWISS_CHECK:
  assumes "\<not> ifdef t ''NDEBUG''"
  shows "CWISS_DCHECK t file line cond va_args p = CWISS_CHECK file line cond va_args p"
  using assms by (simp add: CWISS_DCHECK_def)

text \<open>
  The condition of the previous example in a build without \<^verbatim>\<open>NDEBUG\<close>: the debug check
  evaluates it (the counter becomes 1), writes the report of \<^verbatim>\<open>CWISS_CHECK\<close> and aborts.
\<close>

theorem CWISS_DCHECK_debug_is_CWISS_CHECK_witness:
  "CWISS_DCHECK \<lparr>predefined = [], builtins = None\<rparr> ''raw_table.h'' 161
       (\<lambda>counter. (0, Suc counter)) (\<lambda>counter. (''boom'', counter))
       \<lparr>mem = (0::nat), stderr_buf = [], stderr_out = []\<rparr> =
   CWISS_CHECK ''raw_table.h'' 161
       (\<lambda>counter. (0, Suc counter)) (\<lambda>counter. (''boom'', counter))
       \<lparr>mem = (0::nat), stderr_buf = [], stderr_out = []\<rparr> \<and>
   CWISS_DCHECK \<lparr>predefined = [], builtins = None\<rparr> ''raw_table.h'' 161
       (\<lambda>counter. (0, Suc counter)) (\<lambda>counter. (''boom'', counter))
       \<lparr>mem = (0::nat), stderr_buf = [], stderr_out = []\<rparr> =
   Aborted \<lparr>mem = 1, stderr_buf = [],
     stderr_out = ''CWISS_CHECK failed at raw_table.h:161'' @ [CHR 0x0A] @ ''boom'' @ [CHR 0x0A]\<rparr>"
proof -
  have debug: "\<not> ifdef \<lparr>predefined = [], builtins = None\<rparr> ''NDEBUG''"
    by (simp add: ifdef_def lookup_def)
  have check: "CWISS_CHECK ''raw_table.h'' 161
       (\<lambda>counter. (0, Suc counter)) (\<lambda>counter. (''boom'', counter))
       \<lparr>mem = (0::nat), stderr_buf = [], stderr_out = []\<rparr> =
     Aborted \<lparr>mem = 1, stderr_buf = [],
       stderr_out = ''CWISS_CHECK failed at raw_table.h:161'' @ [CHR 0x0A] @ ''boom'' @ [CHR 0x0A]\<rparr>"
    by (simp add: CWISS_CHECK_def fprintf_stderr_def fflush_stderr_def dec_161 newline_def)
  show ?thesis
    using check
      CWISS_DCHECK_debug_is_CWISS_CHECK [OF debug, of "''raw_table.h''" 161
        "\<lambda>counter. (0, Suc counter)" "\<lambda>counter. (''boom'', counter)"
        "\<lparr>mem = (0::nat), stderr_buf = [], stderr_out = []\<rparr>"]
    by simp
qed

section \<open>Properties of the branch-prediction hints\<close>

text \<open>Three toolchains: GCC, Clang in GCC mode with its builtin query, and MSVC.\<close>

lemma gcc_uses_builtin:
  "c_or (CWISS_HAVE_CLANG_BUILTIN \<lparr>predefined = [(''__GNUC__'', 13)], builtins = None\<rparr>
           ''__builtin_expect'')
        (CWISS_IS_GCC \<lparr>predefined = [(''__GNUC__'', 13)], builtins = None\<rparr>) = 1"
  by (simp add: strict_flags CWISS_HAVE_CLANG_BUILTIN_def c_or_def ifdef_def lookup_def)

lemma clang_uses_builtin:
  "c_or (CWISS_HAVE_CLANG_BUILTIN \<lparr>predefined = [(''__clang__'', 1), (''__GNUC__'', 4)],
            builtins = Some [''__builtin_expect'', ''__builtin_prefetch'']\<rparr> ''__builtin_expect'')
        (CWISS_IS_GCC \<lparr>predefined = [(''__clang__'', 1), (''__GNUC__'', 4)],
            builtins = Some [''__builtin_expect'', ''__builtin_prefetch'']\<rparr>) = 1"
  by (simp add: strict_flags CWISS_HAVE_CLANG_BUILTIN_def c_or_def ifdef_def lookup_def)

lemma msvc_uses_fallback:
  "c_or (CWISS_HAVE_CLANG_BUILTIN \<lparr>predefined = [(''_MSC_VER'', 1930)], builtins = None\<rparr>
           ''__builtin_expect'')
        (CWISS_IS_GCC \<lparr>predefined = [(''_MSC_VER'', 1930)], builtins = None\<rparr>) = 0"
  by (simp add: strict_flags CWISS_HAVE_CLANG_BUILTIN_def c_or_def ifdef_def lookup_def)

text \<open>
  Claim C8. For an expression whose value is a boolean (0 or 1), \<^verbatim>\<open>CWISS_LIKELY\<close> and
  \<^verbatim>\<open>CWISS_UNLIKELY\<close> yield the value of the expression, and leave the memory that
  evaluating the expression once leaves, on every toolchain: where the header expands them to
  \<^verbatim>\<open>__builtin_expect\<close> and where it expands them to the bare expression.
\<close>

theorem hint_preserves_boolean:
  assumes "fst (cond s) = 0 \<or> fst (cond s) = 1"
  shows "CWISS_LIKELY t cond s = cond s \<and> CWISS_UNLIKELY t cond s = cond s"
  using assms
  by (auto simp add: CWISS_LIKELY_def CWISS_UNLIKELY_def builtin_expect_def c_or_def c_false_def
      split_beta prod_eq_iff)

text \<open>
  A true expression under GCC (the intrinsic) and a false one under MSVC (the bare
  expression); each counts its evaluations, and is evaluated once.
\<close>

theorem hint_preserves_boolean_witness:
  "CWISS_LIKELY \<lparr>predefined = [(''__GNUC__'', 13)], builtins = None\<rparr>
       (\<lambda>calls. (1, Suc calls)) (0::nat) = (1, 1) \<and>
   CWISS_UNLIKELY \<lparr>predefined = [(''__GNUC__'', 13)], builtins = None\<rparr>
       (\<lambda>calls. (1, Suc calls)) (0::nat) = (1, 1) \<and>
   CWISS_LIKELY \<lparr>predefined = [(''_MSC_VER'', 1930)], builtins = None\<rparr>
       (\<lambda>calls. (0, Suc calls)) (0::nat) = (0, 1) \<and>
   CWISS_UNLIKELY \<lparr>predefined = [(''_MSC_VER'', 1930)], builtins = None\<rparr>
       (\<lambda>calls. (0, Suc calls)) (0::nat) = (0, 1)"
  using
    hint_preserves_boolean [of "\<lambda>calls. (1, Suc calls)" "0::nat"
      "\<lparr>predefined = [(''__GNUC__'', 13)], builtins = None\<rparr>"]
    hint_preserves_boolean [of "\<lambda>calls. (0, Suc calls)" "0::nat"
      "\<lparr>predefined = [(''_MSC_VER'', 1930)], builtins = None\<rparr>"]
  by simp

text \<open>
  Claim C10. Where the header uses the intrinsic (the condition of its \<^verbatim>\<open>#if\<close> is not 0),
  \<^verbatim>\<open>CWISS_LIKELY(e)\<close> and \<^verbatim>\<open>CWISS_UNLIKELY(e)\<close> yield the truth value of \<open>e\<close>, 1 when
  \<open>e\<close> is not 0 and 0 when it is, because the argument is wrapped as
  \<^verbatim>\<open>false || (e)\<close>; where it does not, they yield \<open>e\<close> itself. In both cases \<open>e\<close>
  is evaluated once.
\<close>

theorem hint_booleanizes:
  "(c_or (CWISS_HAVE_CLANG_BUILTIN t ''__builtin_expect'') (CWISS_IS_GCC t) \<noteq> 0 \<longrightarrow>
      CWISS_LIKELY t cond s = (if fst (cond s) = 0 then 0 else 1, snd (cond s)) \<and>
      CWISS_UNLIKELY t cond s = (if fst (cond s) = 0 then 0 else 1, snd (cond s))) \<and>
   (c_or (CWISS_HAVE_CLANG_BUILTIN t ''__builtin_expect'') (CWISS_IS_GCC t) = 0 \<longrightarrow>
      CWISS_LIKELY t cond s = cond s \<and> CWISS_UNLIKELY t cond s = cond s)"
  by (simp add: CWISS_LIKELY_def CWISS_UNLIKELY_def builtin_expect_def c_or_def c_false_def
      split_beta)

text \<open>
  The integers 5 and -3 become 1 under GCC and under Clang; 5 stays 5 under MSVC.
\<close>

theorem hint_booleanizes_witness:
  "CWISS_LIKELY \<lparr>predefined = [(''__GNUC__'', 13)], builtins = None\<rparr>
       (\<lambda>calls. (5, Suc calls)) (0::nat) = (1, 1) \<and>
   CWISS_UNLIKELY \<lparr>predefined = [(''__clang__'', 1), (''__GNUC__'', 4)],
         builtins = Some [''__builtin_expect'', ''__builtin_prefetch'']\<rparr>
       (\<lambda>calls. (- 3, Suc calls)) (0::nat) = (1, 1) \<and>
   CWISS_LIKELY \<lparr>predefined = [(''_MSC_VER'', 1930)], builtins = None\<rparr>
       (\<lambda>calls. (5, Suc calls)) (0::nat) = (5, 1) \<and>
   CWISS_UNLIKELY \<lparr>predefined = [(''_MSC_VER'', 1930)], builtins = None\<rparr>
       (\<lambda>calls. (5, Suc calls)) (0::nat) = (5, 1)"
  using gcc_uses_builtin clang_uses_builtin msvc_uses_fallback
    hint_booleanizes [of "\<lparr>predefined = [(''__GNUC__'', 13)], builtins = None\<rparr>"
      "\<lambda>calls. (5, Suc calls)" "0::nat"]
    hint_booleanizes [of "\<lparr>predefined = [(''__clang__'', 1), (''__GNUC__'', 4)],
         builtins = Some [''__builtin_expect'', ''__builtin_prefetch'']\<rparr>"
      "\<lambda>calls. (- 3, Suc calls)" "0::nat"]
    hint_booleanizes [of "\<lparr>predefined = [(''_MSC_VER'', 1930)], builtins = None\<rparr>"
      "\<lambda>calls. (5, Suc calls)" "0::nat"]
  by simp

section \<open>Properties of the atomic counter\<close>

text \<open>
  A turn leaves unchanged the counter plus the number of increments still to be made:
  an increment that is made is an increment that is counted.
\<close>

lemma thread_step_invariant:
  fixes st :: "'a::len word shared"
  shows "counter (thread_step t i st) + of_nat (sum_list (pending (thread_step t i st)))
     = counter st + of_nat (sum_list (pending st))"
proof (cases "i < length (pending st) \<and> pending st ! i \<noteq> 0")
  case True
  then have "sum_list ((pending st)[i := pending st ! i - 1]) + 1 = sum_list (pending st)"
    using member_le_sum_list [of "pending st ! i" "pending st"]
    by (simp add: sum_list_update)
  then have "(of_nat (sum_list (pending st)) :: 'a word) =
      of_nat (sum_list ((pending st)[i := pending st ! i - 1]) + 1)"
    by simp
  then have "(of_nat (sum_list (pending st)) :: 'a word) =
      of_nat (sum_list ((pending st)[i := pending st ! i - 1])) + 1"
    by simp
  with True show ?thesis
    by (simp add: thread_step_def CWISS_ATOMIC_INC_def atomic_fetch_add_explicit_def
        std_atomic_fetch_add_def)
next
  case False
  then show ?thesis
    by (auto simp add: thread_step_def)
qed

lemma run_schedule_invariant:
  fixes st :: "'a::len word shared"
  shows "counter (run_schedule t sched st) + of_nat (sum_list (pending (run_schedule t sched st)))
     = counter st + of_nat (sum_list (pending st))"
  by (induction sched arbitrary: st) (simp_all add: thread_step_invariant)

lemma two_threads_c:
  "run_schedule \<lparr>predefined = [], builtins = None\<rparr> [0, 1, 1, 0, 1]
     \<lparr>counter = (10::32 word), pending = [2, 3]\<rparr> = \<lparr>counter = 15, pending = [0, 0]\<rparr>"
  by (simp add: thread_step_def CWISS_ATOMIC_INC_def atomic_fetch_add_explicit_def
      ifdef_def lookup_def)

lemma two_threads_cplusplus:
  "run_schedule \<lparr>predefined = [(''__cplusplus'', 201103)], builtins = None\<rparr> [1, 0, 1, 1, 0]
     \<lparr>counter = (10::32 word), pending = [2, 3]\<rparr> = \<lparr>counter = 15, pending = [0, 0]\<rparr>"
  by (simp add: thread_step_def CWISS_ATOMIC_INC_def std_atomic_fetch_add_def
      ifdef_def lookup_def)

text \<open>
  Claim C9, as the code has it. Let any number of threads make \<open>N\<close> invocations of
  \<^verbatim>\<open>CWISS_ATOMIC_INC\<close> in all on one counter, in any order of turns, in C or in C++, and
  let all of them be done. Then no increment is lost: the counter is its initial value
  plus \<open>N\<close> in the arithmetic of its type, that is \<open>(initial + N) mod 2 ^ width\<close>. It
  is exactly \<open>N\<close> greater than the initial value whenever \<open>initial + N\<close> is a value of
  the type.
\<close>

theorem atomic_inc_counts_every_increment:
  fixes st :: "'a::len word shared"
  assumes "sum_list (pending (run_schedule t sched st)) = 0"
  shows "counter (run_schedule t sched st) = counter st + of_nat (sum_list (pending st)) \<and>
    unat (counter (run_schedule t sched st)) =
      (unat (counter st) + sum_list (pending st)) mod 2 ^ LENGTH('a) \<and>
    (unat (counter st) + sum_list (pending st) < 2 ^ LENGTH('a) \<longrightarrow>
      unat (counter (run_schedule t sched st)) = unat (counter st) + sum_list (pending st))"
proof -
  have final: "counter (run_schedule t sched st) = counter st + of_nat (sum_list (pending st))"
    using run_schedule_invariant [of t sched st] assms by simp
  then have "unat (counter (run_schedule t sched st)) =
      (unat (counter st) + sum_list (pending st)) mod 2 ^ LENGTH('a)"
    by (simp add: unat_word_ariths unat_of_nat mod_add_right_eq)
  with final show ?thesis by simp
qed

text \<open>
  Two threads with 2 and 3 increments to make on a 32-bit counter that holds 10, their
  turns interleaved, in C and in C++: the counter ends at 15.
\<close>

theorem atomic_inc_counts_every_increment_witness:
  "unat (counter (run_schedule \<lparr>predefined = [], builtins = None\<rparr> [0, 1, 1, 0, 1]
     \<lparr>counter = (10::32 word), pending = [2, 3]\<rparr>)) = 15 \<and>
   unat (counter (run_schedule \<lparr>predefined = [(''__cplusplus'', 201103)], builtins = None\<rparr>
     [1, 0, 1, 1, 0] \<lparr>counter = (10::32 word), pending = [2, 3]\<rparr>)) = 15"
proof -
  have done_c: "sum_list (pending (run_schedule \<lparr>predefined = [], builtins = None\<rparr>
      [0, 1, 1, 0, 1] \<lparr>counter = (10::32 word), pending = [2, 3]\<rparr>)) = 0"
    unfolding two_threads_c by simp
  have done_cplusplus: "sum_list (pending (run_schedule
      \<lparr>predefined = [(''__cplusplus'', 201103)], builtins = None\<rparr>
      [1, 0, 1, 1, 0] \<lparr>counter = (10::32 word), pending = [2, 3]\<rparr>)) = 0"
    unfolding two_threads_cplusplus by simp
  show ?thesis
    using atomic_inc_counts_every_increment [OF done_c]
      atomic_inc_counts_every_increment [OF done_cplusplus]
    by simp
qed

text \<open>
  Claim C9 as it is stated, for every initial value, fails where the counter wraps
  around: an 8-bit counter that holds 255 holds 0 after its one increment, not the 256
  that is one greater.
\<close>

theorem atomic_inc_wraps_around:
  "sum_list (pending (run_schedule \<lparr>predefined = [], builtins = None\<rparr> [0]
     \<lparr>counter = (255::8 word), pending = [1]\<rparr>)) = 0 \<and>
   unat (counter (run_schedule \<lparr>predefined = [], builtins = None\<rparr> [0]
     \<lparr>counter = (255::8 word), pending = [1]\<rparr>)) = 0 \<and>
   unat (255::8 word) + sum_list [1] = 256"
  by (simp add: thread_step_def CWISS_ATOMIC_INC_def atomic_fetch_add_explicit_def
      ifdef_def lookup_def)

end
